theory Spec2Isabelle
  imports Main "HOL-Library.Word" "HOL-Library.Sublist"
begin

text \<open>
  The repository holds its services in two versions. The files \<open>services/*.ts\<close> are the
  smaller one: \<open>generateSolidityCode\<close>, \<open>compileAndDeployContract\<close> through the node's
  \<open>eth_compileSolidity\<close>, \<open>getRecords\<close> and \<open>updateRecord\<close> on the driver's collection.
  The project description lists the other with its code: the mongoose model, the route
  \<open>POST /duna/:id/generate-contract\<close>, \<open>generateContractSource\<close>, \<open>obfuscateCode\<close>,
  \<open>compileContract\<close>, \<open>deployContract\<close>, \<open>compileAndDeployContract\<close> and
  \<open>updateDunaRecord\<close>. Both are modelled, each function under its own name; the
  \<open>compileAndDeployContract\<close> of the file \<open>services/contractService.ts\<close> is
  \<open>compileAndDeployContract_rpc\<close> here.
\<close>

section \<open>JavaScript strings\<close>

text \<open>
  A JavaScript string is a sequence of UTF-16 code units; \<open>split('')\<close>, \<open>reverse\<close>,
  \<open>join\<close>, \<open>trim\<close>, \<open>replace\<close> and \<open>===\<close> all work on code units. A supplementary-plane
  character is a pair of code units (a high surrogate followed by a low surrogate).
\<close>

type_synonym jsstring = "16 word list"

text \<open>An ASCII literal of the source, as code units.\<close>

definition js :: "string \<Rightarrow> jsstring" where
  "js s = map (\<lambda>c. word_of_nat (of_char c)) s"

definition is_high_surrogate :: "16 word \<Rightarrow> bool" where
  "is_high_surrogate u \<longleftrightarrow> 0xD800 \<le> u \<and> u \<le> 0xDBFF"

definition is_low_surrogate :: "16 word \<Rightarrow> bool" where
  "is_low_surrogate u \<longleftrightarrow> 0xDC00 \<le> u \<and> u \<le> 0xDFFF"

definition is_surrogate :: "16 word \<Rightarrow> bool" where
  "is_surrogate u \<longleftrightarrow> is_high_surrogate u \<or> is_low_surrogate u"

text \<open>
  The code points of a string, as the string iterator of ECMAScript reads them
  (\<open>[...s]\<close>, \<open>Array.from(s)\<close>): a high surrogate followed by a low surrogate is one
  code point, any other code unit is a code point of its own (a lone surrogate included).
\<close>

fun code_points :: "jsstring \<Rightarrow> nat list" where
  "code_points [] = []"
| "code_points [u] = [unat u]"
| "code_points (u # v # rest) =
     (if is_high_surrogate u \<and> is_low_surrogate v
      then (0x10000 + (unat u - 0xD800) * 0x400 + (unat v - 0xDC00)) # code_points rest
      else unat u # code_points (v # rest))"

text \<open>
  \<open>String.prototype.isWellFormed\<close>: no lone surrogate. Exactly the well-formed strings
  have a UTF-8 encoding that decodes back to them; a lone surrogate is encoded as U+FFFD.
\<close>

fun well_formed :: "jsstring \<Rightarrow> bool" where
  "well_formed [] = True"
| "well_formed [u] = (\<not> is_surrogate u)"
| "well_formed (u # v # rest) =
     (if is_high_surrogate u \<and> is_low_surrogate v then well_formed rest
      else \<not> is_surrogate u \<and> well_formed (v # rest))"

section \<open>utils/obfuscator.ts\<close>

text \<open>
  \<^verbatim>\<open>export const obfuscateCode = (code: string): string => {
    return code.split('').reverse().join('');
  };\<close>
  \<open>split('')\<close> gives the array of the one-code-unit strings, \<open>reverse\<close> reverses the
  array, \<open>join('')\<close> concatenates its elements.
\<close>

definition split_empty :: "jsstring \<Rightarrow> jsstring list" where
  "split_empty code = map (\<lambda>u. [u]) code"

definition join_empty :: "jsstring list \<Rightarrow> jsstring" where
  "join_empty parts = concat parts"

definition obfuscateCode :: "jsstring \<Rightarrow> jsstring" where
  "obfuscateCode code = join_empty (rev (split_empty code))"

section \<open>String operations of the runtime\<close>

text \<open>
  The code units that \<open>\s\<close> in a regular expression and \<open>String.prototype.trim\<close> treat
  as white space (ECMAScript WhiteSpace and LineTerminator).
\<close>

definition is_whitespace :: "16 word \<Rightarrow> bool" where
  "is_whitespace u \<longleftrightarrow>
     u = 0x09 \<or> u = 0x0A \<or> u = 0x0B \<or> u = 0x0C \<or> u = 0x0D \<or> u = 0x20 \<or> u = 0xA0 \<or>
     u = 0x1680 \<or> (0x2000 \<le> u \<and> u \<le> 0x200A) \<or> u = 0x2028 \<or> u = 0x2029 \<or>
     u = 0x202F \<or> u = 0x205F \<or> u = 0x3000 \<or> u = 0xFEFF"

definition trim :: "jsstring \<Rightarrow> jsstring" where
  "trim s = rev (dropWhile is_whitespace (rev (dropWhile is_whitespace s)))"

text \<open>
  \<open>s.replace(/\s+/g, '_')\<close>: every maximal run of white space becomes one underscore
  (code unit 0x5F).
\<close>

function replace_whitespace_runs :: "jsstring \<Rightarrow> jsstring" where
  "replace_whitespace_runs [] = []"
| "replace_whitespace_runs (u # rest) =
     (if is_whitespace u then 0x5F # replace_whitespace_runs (dropWhile is_whitespace rest)
      else u # replace_whitespace_runs rest)"
  by pat_completeness auto
termination
  by (relation "measure length") (auto simp: le_imp_less_Suc length_dropWhile_le)

text \<open>
  \<open>Array.prototype.join(sep)\<close> on an array of strings.
\<close>

fun join :: "jsstring \<Rightarrow> jsstring list \<Rightarrow> jsstring" where
  "join sep [] = []"
| "join sep [x] = x"
| "join sep (x # y # ys) = x @ sep @ join sep (y # ys)"

text \<open>
  Number to string, as a template literal does it. The numbers modelled are the
  integers; an integer of magnitude below \<open>10^21\<close> is printed in decimal digits.
\<close>

definition digit :: "nat \<Rightarrow> 16 word" where
  "digit d = word_of_nat (48 + d)"

function nat_toString :: "nat \<Rightarrow> jsstring" where
  "nat_toString n = (if n < 10 then [digit n] else nat_toString (n div 10) @ [digit (n mod 10)])"
  by pat_completeness auto
termination
  by (relation "measure id") auto

definition number_toString :: "int \<Rightarrow> jsstring" where
  "number_toString i = (if i < 0 then 0x2D # nat_toString (nat (- i)) else nat_toString (nat i))"

section \<open>JavaScript values and errors\<close>

text \<open>
  The values \<open>JSON.parse\<close> can produce, and \<open>undefined\<close>, which reading an absent
  property gives. An object is the list of its own properties in enumeration order.
  Numbers are restricted to the integers.
\<close>

datatype jsval =
    JUndefined
  | JNull
  | JBool bool
  | JNum int
  | JStr jsstring
  | JArr "jsval list"
  | JObj "(jsstring \<times> jsval) list"

text \<open>
  What the code can throw. \<open>TypeError\<close> carries the name of the property (or the call)
  whose evaluation raised it, not the engine's message text. \<open>Error m\<close> is
  \<open>new Error(m)\<close>. \<open>AxiosError\<close>, \<open>EthersError\<close>, \<open>MongoError\<close> and \<open>RpcError\<close> are
  the rejections of the libraries.
\<close>

datatype js_error =
    TypeError jsstring
  | Error jsstring
  | AxiosError
  | EthersError
  | MongoError
  | RpcError

definition and_then :: "'e + 'a \<Rightarrow> ('a \<Rightarrow> 'e + 'b) \<Rightarrow> 'e + 'b" where
  "and_then r f = (case r of Inl e \<Rightarrow> Inl e | Inr x \<Rightarrow> f x)"

text \<open>
  \<open>v.k\<close> for a data property name \<open>k\<close> that no prototype defines (\<open>choices\<close>, \<open>text\<close>):
  reading a property of \<open>undefined\<close> or \<open>null\<close> throws, an object gives its own property
  or \<open>undefined\<close>, any other value gives \<open>undefined\<close>.
\<close>

fun get_property :: "jsval \<Rightarrow> jsstring \<Rightarrow> js_error + jsval" where
  "get_property JUndefined k = Inl (TypeError k)"
| "get_property JNull k = Inl (TypeError k)"
| "get_property (JObj kvs) k = Inr (case map_of kvs k of None \<Rightarrow> JUndefined | Some v \<Rightarrow> v)"
| "get_property v k = Inr JUndefined"

text \<open>\<open>v[0]\<close>.\<close>

fun get_index0 :: "jsval \<Rightarrow> js_error + jsval" where
  "get_index0 JUndefined = Inl (TypeError (js ''0''))"
| "get_index0 JNull = Inl (TypeError (js ''0''))"
| "get_index0 (JArr xs) = Inr (case xs of [] \<Rightarrow> JUndefined | x # _ \<Rightarrow> x)"
| "get_index0 (JStr s) = Inr (case s of [] \<Rightarrow> JUndefined | u # _ \<Rightarrow> JStr [u])"
| "get_index0 (JObj kvs) = Inr (case map_of kvs (js ''0'') of None \<Rightarrow> JUndefined | Some v \<Rightarrow> v)"
| "get_index0 v = Inr JUndefined"

text \<open>
  \<open>v.trim()\<close>: only a string has the method; on \<open>undefined\<close> and \<open>null\<close> the property
  read throws, on any other value \<open>trim\<close> is not a function.
\<close>

fun call_trim :: "jsval \<Rightarrow> js_error + jsstring" where
  "call_trim (JStr s) = Inr (trim s)"
| "call_trim v = Inl (TypeError (js ''trim''))"

subsection \<open>JSON.stringify\<close>

definition hex_digit :: "nat \<Rightarrow> 16 word" where
  "hex_digit d = (if d < 10 then word_of_nat (48 + d) else word_of_nat (87 + d))"

definition unicode_escape :: "16 word \<Rightarrow> jsstring" where
  "unicode_escape u =
     [0x5C, 0x75] @ map hex_digit
       [unat u div 4096 mod 16, unat u div 256 mod 16, unat u div 16 mod 16, unat u mod 16]"

definition escape_unit :: "16 word \<Rightarrow> jsstring" where
  "escape_unit u =
     (if u = 0x08 then [0x5C, 0x62]
      else if u = 0x09 then [0x5C, 0x74]
      else if u = 0x0A then [0x5C, 0x6E]
      else if u = 0x0C then [0x5C, 0x66]
      else if u = 0x0D then [0x5C, 0x72]
      else if u = 0x22 then [0x5C, 0x22]
      else if u = 0x5C then [0x5C, 0x5C]
      else if u < 0x20 \<or> is_surrogate u then unicode_escape u
      else [u])"

fun quote_units :: "jsstring \<Rightarrow> jsstring" where
  "quote_units [] = []"
| "quote_units [u] = escape_unit u"
| "quote_units (u # v # rest) =
     (if is_high_surrogate u \<and> is_low_surrogate v then u # v # quote_units rest
      else escape_unit u @ quote_units (v # rest))"

definition QuoteJSONString :: "jsstring \<Rightarrow> jsstring" where
  "QuoteJSONString s = [0x22] @ quote_units s @ [0x22]"

text \<open>
  The serialisation of a value inside an array or as an object member; \<open>None\<close> is the
  \<open>undefined\<close> that makes an object skip the member and an array print \<open>null\<close>.
\<close>

fun JSON_serialize :: "jsval \<Rightarrow> jsstring option" where
  "JSON_serialize JUndefined = None"
| "JSON_serialize JNull = Some (js ''null'')"
| "JSON_serialize (JBool b) = Some (if b then js ''true'' else js ''false'')"
| "JSON_serialize (JNum i) = Some (number_toString i)"
| "JSON_serialize (JStr s) = Some (QuoteJSONString s)"
| "JSON_serialize (JArr xs) =
     Some ([0x5B] @
       join [0x2C] (map (\<lambda>x. case JSON_serialize x of None \<Rightarrow> js ''null'' | Some t \<Rightarrow> t) xs) @
       [0x5D])"
| "JSON_serialize (JObj kvs) =
     Some ([0x7B] @
       join [0x2C] (concat (map (\<lambda>kv. case JSON_serialize (snd kv) of None \<Rightarrow> []
                                      | Some t \<Rightarrow> [QuoteJSONString (fst kv) @ [0x3A] @ t]) kvs)) @
       [0x7D])"

text \<open>\<open>`${JSON.stringify(v)}`\<close>: the template literal prints \<open>undefined\<close> by name.\<close>

definition JSON_stringify_in_template :: "jsval \<Rightarrow> jsstring" where
  "JSON_stringify_in_template v =
     (case JSON_serialize v of None \<Rightarrow> js ''undefined'' | Some t \<Rightarrow> t)"

section \<open>models/DunaRecord.ts: the record of the pipeline\<close>

text \<open>
  The mongoose document of the generate-contract pipeline, field for field as the schema
  types it (\<open>notes'\<close> is the field \<open>notes\<close>). The two \<open>timestamps\<close> fields hold
  wall-clock times and are left out. The record store maps an identifier (\<open>_id\<close>) to
  its document.
\<close>

record DunaRecord =
  name :: jsstring
  membershipStatus :: jsstring
  complianceLevel :: int
  notes' :: jsstring
  contractGenerated :: bool
  contractSource :: jsstring
  contractAddress :: jsstring
  memberId :: jsstring

type_synonym store = "jsstring \<rightharpoonup> DunaRecord"

section \<open>The outside world\<close>

text \<open>
  The body of the completion request. The source also sends \<open>temperature: 0.7\<close>, a
  constant that no result depends on.
\<close>

record completion_request =
  req_prompt :: jsstring
  req_max_tokens :: nat

text \<open>
  What one \<open>axios.post\<close> meets: no response at all, or a response with its status and
  its body (\<open>response.data\<close>).
\<close>

datatype axios_outcome = NetworkFailure | HttpResponse nat jsval

text \<open>
  \<open>axios.post\<close> rejects on a network failure and on every status outside 200..299 (its
  default \<open>validateStatus\<close>); otherwise it resolves with the response.
\<close>

definition axios_post :: "axios_outcome \<Rightarrow> js_error + jsval" where
  "axios_post outcome =
     (case outcome of
        NetworkFailure \<Rightarrow> Inl AxiosError
      | HttpResponse status data \<Rightarrow>
          if 200 \<le> status \<and> status < 300 then Inr data else Inl AxiosError)"

text \<open>
  The compiler's standard-JSON output, as far as the code reads it: the optional
  \<open>errors\<close> array of diagnostics, and the optional \<open>contracts\<close> object, from file name to
  the object from contract name to contract, both in enumeration order. With the output
  selection the code sends, every contract carries \<open>abi\<close> and \<open>evm.bytecode.object\<close>.
\<close>

record diagnostic =
  severity :: jsstring
  message :: jsstring

record contract_output =
  abi :: jsval
  evm_bytecode_object :: jsstring

record compiler_output =
  errors :: "diagnostic list option"
  contracts :: "(jsstring \<times> (jsstring \<times> contract_output) list) list option"

text \<open>
  What a deployment meets: the transaction is not accepted (or the factory rejects the
  ABI or bytecode), or it is sent with a hash and then fails to confirm, or it confirms
  at an address.
\<close>

datatype deploy_outcome =
    NotSubmitted
  | NotConfirmed jsstring
  | Confirmed jsstring jsstring

text \<open>The lines written with \<open>log\<close>, by their template and interpolated values.\<close>

datatype log_message =
    LLMGenerationError js_error
  | SolcCompilationErrors "diagnostic list"
  | DeployingContract jsstring
  | ContractDeployedAt jsstring
  | ContractDeploymentError js_error
  | ErrorGeneratingContract js_error
  | UpdatedDunaRecord jsstring
  | ErrorUpdatingDunaRecord js_error

text \<open>The calls that leave the process, and the log lines, in the order they happen.\<close>

datatype effect =
    FindById jsstring
  | AxiosPost completion_request
  | SolcCompile jsstring
  | EthCompileSolidity jsstring
  | DeployTransaction jsval jsstring
  | Save jsstring DunaRecord
  | FindByIdAndUpdate jsstring
  | Log log_message

text \<open>
  The services one run of the pipeline talks to. \<open>findById_rejects\<close> and \<open>save_rejects\<close>
  say whether the database call of this run fails.
\<close>

record world =
  findById_rejects :: bool
  llm_endpoint :: "completion_request \<Rightarrow> axios_outcome"
  solc :: "jsstring \<Rightarrow> compiler_output"
  blockchain :: "jsval \<Rightarrow> jsstring \<Rightarrow> deploy_outcome"
  save_rejects :: bool

section \<open>services/llmService.ts\<close>

subsection \<open>generateContractSource: the prompt\<close>

definition nl :: jsstring where
  "nl = [0x0A]"

definition dquote :: jsstring where
  "dquote = [0x22]"

text \<open>The template literal of \<open>generateContractSource\<close>, line by line.\<close>

definition contract_prompt :: "DunaRecord \<Rightarrow> jsstring" where
  "contract_prompt record =
     nl @
     js ''    You are an expert DeFi developer using the LUNA framework. Generate a Solidity smart contract based on the following DUNA record:'' @ nl @
     nl @
     js ''    Name: '' @ name record @ nl @
     js ''    Membership Status: '' @ membershipStatus record @ nl @
     js ''    Compliance Level: '' @ number_toString (complianceLevel record) @ nl @
     js ''    Notes: '' @ notes' record @ nl @
     nl @
     js ''    Requirements:'' @ nl @
     js ''    - Contract name should be '' @ dquote @ js ''DUNA_'' @
       replace_whitespace_runs (name record) @ dquote @ js ''.'' @ nl @
     js ''    - Implement membershipStatus and complianceLevel logic.'' @ nl @
     js ''    - Include functions to update complianceLevel.'' @ nl @
     js ''    - Ensure compatibility with Solidity 0.8.x.'' @ nl @
     js ''    - Provide an ERC-20-like interface if relevant.'' @ nl @
     js ''  ''"

subsection \<open>generateContractSource: the request\<close>

text \<open>\<open>response.data.choices[0].text\<close>.\<close>

definition completion_text :: "jsval \<Rightarrow> js_error + jsval" where
  "completion_text data =
     and_then (get_property data (js ''choices''))
       (\<lambda>choices. and_then (get_index0 choices) (\<lambda>choice. get_property choice (js ''text'')))"

text \<open>
  \<^verbatim>\<open>try {
    const response = await axios.post(LLM_CONFIG.apiUrl, { prompt, max_tokens: 1500, ... });
    let contractSource = response.data.choices[0].text.trim();
    contractSource = obfuscateCode(contractSource);
    return contractSource;
  } catch (error) {
    log(`LLM Generation Error: ${error}`);
    throw new Error('Failed to generate contract source');
  }\<close>
\<close>

definition generateContractSource ::
  "(completion_request \<Rightarrow> axios_outcome) \<Rightarrow> DunaRecord \<Rightarrow> effect list \<times> (js_error + jsstring)" where
  "generateContractSource endpoint record =
     (let request = \<lparr>req_prompt = contract_prompt record, req_max_tokens = 1500\<rparr> in
      case and_then (axios_post (endpoint request))
             (\<lambda>data. and_then (completion_text data) call_trim) of
        Inl error \<Rightarrow>
          ([AxiosPost request, Log (LLMGenerationError error)],
           Inl (Error (js ''Failed to generate contract source'')))
      | Inr trimmed \<Rightarrow> ([AxiosPost request], Inr (obfuscateCode trimmed)))"

subsection \<open>generateSolidityCode\<close>

text \<open>
  The client of the file \<open>services/llmService.ts\<close> itself. Its record is the plain object
  \<open>{id, name, description, parameters}\<close>, here a \<open>jsval\<close>.
  \<^verbatim>\<open>const response = await axios.post(LLM_API_ENDPOINT, {
    prompt: `Generate a Solidity smart contract for the following record: ${JSON.stringify(record)}`,
    max_tokens: 150,
  }, ...);
  return response.data.choices[0].text;\<close>
  There is no handler: what \<open>axios.post\<close> or a property read throws is what the caller
  gets, and the value of \<open>text\<close> is returned whatever it is.
\<close>

definition solidity_prompt :: "jsval \<Rightarrow> jsstring" where
  "solidity_prompt record =
     js ''Generate a Solidity smart contract for the following record: '' @
     JSON_stringify_in_template record"

definition generateSolidityCode ::
  "(completion_request \<Rightarrow> axios_outcome) \<Rightarrow> jsval \<Rightarrow> effect list \<times> (js_error + jsval)" where
  "generateSolidityCode endpoint record =
     (let request = \<lparr>req_prompt = solidity_prompt record, req_max_tokens = 150\<rparr> in
      ([AxiosPost request], and_then (axios_post (endpoint request)) completion_text))"

section \<open>services/contractService.ts\<close>

text \<open>
  The first contract of a file of the compiler output:
  \<^verbatim>\<open>const contractName = Object.keys(output.contracts[file])[0];
  const contract = output.contracts[file][contractName];
  ... contract.abi ... contract.evm.bytecode.object\<close>
  Without \<open>contracts\<close> the read of \<open>[file]\<close> throws; without the file \<open>Object.keys\<close>
  throws; with no contract in the file \<open>contractName\<close> is \<open>undefined\<close>, the lookup
  under the key \<open>undefined\<close> finds nothing, and the read of \<open>abi\<close> throws.
\<close>

definition first_contract :: "jsstring \<Rightarrow> compiler_output \<Rightarrow> js_error + contract_output" where
  "first_contract file output =
     (case contracts output of
        None \<Rightarrow> Inl (TypeError file)
      | Some files \<Rightarrow>
          (case map_of files file of
             None \<Rightarrow> Inl (TypeError (js ''Object.keys''))
           | Some contractData \<Rightarrow>
               (let contractName = (case map fst contractData of
                                      [] \<Rightarrow> js ''undefined''
                                    | key # _ \<Rightarrow> key)
                in case map_of contractData contractName of
                     None \<Rightarrow> Inl (TypeError (js ''abi''))
                   | Some contract \<Rightarrow> Inr contract)))"

record compiled =
  compiled_abi :: jsval
  compiled_bytecode :: jsstring

text \<open>
  \<^verbatim>\<open>const output = JSON.parse(solc.compile(JSON.stringify(input)));
  if (output.errors) {
    const errors = output.errors.filter((err: any) => err.severity === 'error');
    if (errors.length > 0) {
      log(`Solc Compilation Errors: ${JSON.stringify(errors, null, 2)}`);
      throw new Error('Contract compilation failed');
    }
  }
  const contractName = Object.keys(output.contracts['DUNAContract.sol'])[0];
  const contract = output.contracts['DUNAContract.sol'][contractName];
  return { abi: contract.abi, bytecode: contract.evm.bytecode.object };\<close>
  The compiler is a function of the source: the rest of its input is constant.
\<close>

definition compileContract ::
  "(jsstring \<Rightarrow> compiler_output) \<Rightarrow> jsstring \<Rightarrow> effect list \<times> (js_error + compiled)" where
  "compileContract compiler source =
     (let output = compiler source;
          found = (case errors output of
                     None \<Rightarrow> []
                   | Some diagnostics \<Rightarrow> filter (\<lambda>err. severity err = js ''error'') diagnostics)
      in if length found > 0
         then ([SolcCompile source, Log (SolcCompilationErrors found)],
               Inl (Error (js ''Contract compilation failed'')))
         else (case first_contract (js ''DUNAContract.sol'') output of
                 Inl error \<Rightarrow> ([SolcCompile source], Inl error)
               | Inr contract \<Rightarrow>
                   ([SolcCompile source],
                    Inr \<lparr>compiled_abi = abi contract,
                         compiled_bytecode = evm_bytecode_object contract\<rparr>)))"

text \<open>
  \<^verbatim>\<open>try {
    const factory = new ethers.ContractFactory(abi, bytecode, wallet);
    const contract = await factory.deploy();
    log(`Deploying contract... Transaction Hash: ${contract.deployTransaction.hash}`);
    await contract.deployed();
    log(`Contract deployed at address: ${contract.address}`);
    return contract.address;
  } catch (error) {
    log(`Contract Deployment Error: ${error}`);
    throw new Error('Failed to deploy contract');
  }\<close>
\<close>

definition deployContract ::
  "(jsval \<Rightarrow> jsstring \<Rightarrow> deploy_outcome) \<Rightarrow> jsval \<Rightarrow> jsstring \<Rightarrow> effect list \<times> (js_error + jsstring)" where
  "deployContract chain abi_json bytecode =
     (case chain abi_json bytecode of
        NotSubmitted \<Rightarrow>
          ([DeployTransaction abi_json bytecode, Log (ContractDeploymentError EthersError)],
           Inl (Error (js ''Failed to deploy contract'')))
      | NotConfirmed hash \<Rightarrow>
          ([DeployTransaction abi_json bytecode, Log (DeployingContract hash),
            Log (ContractDeploymentError EthersError)],
           Inl (Error (js ''Failed to deploy contract'')))
      | Confirmed hash address \<Rightarrow>
          ([DeployTransaction abi_json bytecode, Log (DeployingContract hash),
            Log (ContractDeployedAt address)],
           Inr address))"

text \<open>
  \<^verbatim>\<open>const compiled = compileContract(source);
  const address = await deployContract(compiled.abi, compiled.bytecode);
  return address;\<close>
  The parameter \<open>contractName\<close> is not used.
\<close>

definition compileAndDeployContract ::
  "(jsstring \<Rightarrow> compiler_output) \<Rightarrow> (jsval \<Rightarrow> jsstring \<Rightarrow> deploy_outcome) \<Rightarrow>
   jsstring \<Rightarrow> jsstring \<Rightarrow> effect list \<times> (js_error + jsstring)" where
  "compileAndDeployContract compiler chain source contractName =
     (case compileContract compiler source of
        (fx, Inl error) \<Rightarrow> (fx, Inl error)
      | (fx, Inr c) \<Rightarrow>
          (case deployContract chain (compiled_abi c) (compiled_bytecode c) of
             (fx', result) \<Rightarrow> (fx @ fx', result)))"

text \<open>
  The file \<open>services/contractService.ts\<close> itself compiles through the node:
  \<^verbatim>\<open>const compiledContract = JSON.parse(await provider.send('eth_compileSolidity', [...]));
  const contractData = compiledContract.contracts['contract.sol'];
  const contractName = Object.keys(contractData)[0];
  const contract = contractData[contractName];
  const factory = new ethers.ContractFactory(contract.abi, contract.evm.bytecode.object, wallet);
  const deployedContract = await factory.deploy();
  await deployedContract.waitForDeployment()
  return deployedContract.getAddress();\<close>
  The node's answer is an error (the call rejects) or the parsed output. Nothing reads
  \<open>errors\<close>, and there is no handler.
\<close>

definition compileAndDeployContract_rpc ::
  "(jsstring \<Rightarrow> js_error + compiler_output) \<Rightarrow> (jsval \<Rightarrow> jsstring \<Rightarrow> deploy_outcome) \<Rightarrow>
   jsstring \<Rightarrow> effect list \<times> (js_error + jsstring)" where
  "compileAndDeployContract_rpc node chain solidityCode =
     (case and_then (node solidityCode) (first_contract (js ''contract.sol'')) of
        Inl error \<Rightarrow> ([EthCompileSolidity solidityCode], Inl error)
      | Inr contract \<Rightarrow>
          ([EthCompileSolidity solidityCode,
            DeployTransaction (abi contract) (evm_bytecode_object contract)],
           case chain (abi contract) (evm_bytecode_object contract) of
             NotSubmitted \<Rightarrow> Inl EthersError
           | NotConfirmed hash \<Rightarrow> Inl EthersError
           | Confirmed hash address \<Rightarrow> Inr address))"

section \<open>routes/dunaRoutes.ts: POST /duna/:id/generate-contract\<close>

datatype response_body =
    ErrorBody jsstring
  | ContractBody jsstring jsstring jsstring

type_synonym http_response = "nat \<times> response_body"

definition failed_response :: http_response where
  "failed_response = (500, ErrorBody (js ''Failed to generate and deploy contract''))"

text \<open>
  \<^verbatim>\<open>try {
    const record = await DunaRecord.findById(req.params.id);
    if (!record) return res.status(404).json({ error: 'DUNA Record not found' });
    if (record.contractGenerated)
      return res.status(400).json({ error: 'Contract already generated' });
    const contractSource = await generateContractSource(record);
    const contractAddress = await compileAndDeployContract(contractSource, record.name);
    record.contractGenerated = true;
    record.contractSource = contractSource;
    record.contractAddress = contractAddress;
    await record.save();
    res.json({ message: 'Smart contract generated and deployed successfully',
               contractAddress, contractSource });
  } catch (error) {
    log(`Error generating contract: ${error}`);
    res.status(500).json({ error: 'Failed to generate and deploy contract' });
  }\<close>
  The handler returns the effects in order, the store after the request and the response.
  The three assignments change the handler's own copy; the store changes with \<open>save\<close>.
\<close>

definition generate_contract ::
  "world \<Rightarrow> store \<Rightarrow> jsstring \<Rightarrow> effect list \<times> store \<times> http_response" where
  "generate_contract w db ident =
     (if findById_rejects w
      then ([FindById ident, Log (ErrorGeneratingContract MongoError)], db, failed_response)
      else case db ident of
        None \<Rightarrow> ([FindById ident], db, (404, ErrorBody (js ''DUNA Record not found'')))
      | Some record \<Rightarrow>
          if contractGenerated record
          then ([FindById ident], db, (400, ErrorBody (js ''Contract already generated'')))
          else
            (case generateContractSource (llm_endpoint w) record of
               (fx1, Inl error) \<Rightarrow>
                 (FindById ident # fx1 @ [Log (ErrorGeneratingContract error)], db,
                  failed_response)
             | (fx1, Inr source) \<Rightarrow>
                 (case compileAndDeployContract (solc w) (blockchain w) source (name record) of
                    (fx2, Inl error) \<Rightarrow>
                      (FindById ident # fx1 @ fx2 @ [Log (ErrorGeneratingContract error)], db,
                       failed_response)
                  | (fx2, Inr address) \<Rightarrow>
                      (let saved = record\<lparr>contractGenerated := True,
                                          contractSource := source,
                                          contractAddress := address\<rparr>
                       in if save_rejects w
                          then (FindById ident # fx1 @ fx2 @
                                  [Save ident saved, Log (ErrorGeneratingContract MongoError)],
                                db, failed_response)
                          else (FindById ident # fx1 @ fx2 @ [Save ident saved],
                                db(ident \<mapsto> saved),
                                (200, ContractBody
                                   (js ''Smart contract generated and deployed successfully'')
                                   address source))))))"

section \<open>services/dunaService.ts\<close>

subsection \<open>updateDunaRecord\<close>

text \<open>
  \<open>Partial<DunaRecord>\<close>: each field is given or not.
\<close>

record DunaRecordPartial =
  set_name :: "jsstring option"
  set_membershipStatus :: "jsstring option"
  set_complianceLevel :: "int option"
  set_notes :: "jsstring option"
  set_contractGenerated :: "bool option"
  set_contractSource :: "jsstring option"
  set_contractAddress :: "jsstring option"
  set_memberId :: "jsstring option"

text \<open>The \<open>$set\<close> of the given fields.\<close>

definition assign_fields :: "DunaRecordPartial \<Rightarrow> DunaRecord \<Rightarrow> DunaRecord" where
  "assign_fields data record =
     \<lparr>name = (case set_name data of None \<Rightarrow> name record | Some v \<Rightarrow> v),
      membershipStatus =
        (case set_membershipStatus data of None \<Rightarrow> membershipStatus record | Some v \<Rightarrow> v),
      complianceLevel =
        (case set_complianceLevel data of None \<Rightarrow> complianceLevel record | Some v \<Rightarrow> v),
      notes' = (case set_notes data of None \<Rightarrow> notes' record | Some v \<Rightarrow> v),
      contractGenerated =
        (case set_contractGenerated data of None \<Rightarrow> contractGenerated record | Some v \<Rightarrow> v),
      contractSource =
        (case set_contractSource data of None \<Rightarrow> contractSource record | Some v \<Rightarrow> v),
      contractAddress =
        (case set_contractAddress data of None \<Rightarrow> contractAddress record | Some v \<Rightarrow> v),
      memberId = (case set_memberId data of None \<Rightarrow> memberId record | Some v \<Rightarrow> v)\<rparr>"

text \<open>
  \<^verbatim>\<open>try {
    const updatedRecord = await DunaRecordModel.findByIdAndUpdate(id, data, { new: true });
    log(`Updated DunaRecord: ${id}`);
    return updatedRecord;
  } catch (error) {
    log(`Error updating DunaRecord: ${error}`);
    throw error;
  }\<close>
  \<open>rejects\<close> says whether the database call fails.
\<close>

definition updateDunaRecord ::
  "bool \<Rightarrow> store \<Rightarrow> jsstring \<Rightarrow> DunaRecordPartial \<Rightarrow>
   effect list \<times> store \<times> (js_error + DunaRecord option)" where
  "updateDunaRecord rejects db ident data =
     (if rejects
      then ([FindByIdAndUpdate ident, Log (ErrorUpdatingDunaRecord MongoError)], db,
            Inl MongoError)
      else case db ident of
        None \<Rightarrow> ([FindByIdAndUpdate ident, Log (UpdatedDunaRecord ident)], db, Inr None)
      | Some record \<Rightarrow>
          ([FindByIdAndUpdate ident, Log (UpdatedDunaRecord ident)],
           db(ident \<mapsto> assign_fields data record),
           Inr (Some (assign_fields data record))))"

subsection \<open>getRecords and updateRecord on the plain collection\<close>

text \<open>
  The file \<open>services/dunaService.ts\<close> itself works on the driver's collection: a list of
  documents, each the list of its fields.
\<close>

type_synonym document = "(jsstring \<times> jsval) list"

text \<open>\<open>record.k\<close> on a document.\<close>

definition get_field :: "document \<Rightarrow> jsstring \<Rightarrow> jsval" where
  "get_field doc k = (case map_of doc k of None \<Rightarrow> JUndefined | Some v \<Rightarrow> v)"


text \<open>\<open>$set\<close> of one field: the value is replaced in place, or the field is added.\<close>

fun set_field :: "document \<Rightarrow> jsstring \<times> jsval \<Rightarrow> document" where
  "set_field [] (k, v) = [(k, v)]"
| "set_field ((k', v') # doc) (k, v) =
     (if k' = k then (k, v) # doc else (k', v') # set_field doc (k, v))"

text \<open>
  The filter \<open>{ id }\<close>: the field \<open>id\<close> equals the string, or is an array that holds it.
\<close>

definition matches_id :: "jsstring \<Rightarrow> document \<Rightarrow> bool" where
  "matches_id ident doc =
     (case get_field doc (js ''id'') of
        JStr s \<Rightarrow> s = ident
      | JArr xs \<Rightarrow> JStr ident \<in> set xs
      | _ \<Rightarrow> False)"

fun update_first :: "('a \<Rightarrow> bool) \<Rightarrow> ('a \<Rightarrow> 'a) \<Rightarrow> 'a list \<Rightarrow> 'a list" where
  "update_first p f [] = []"
| "update_first p f (x # xs) = (if p x then f x # xs else x # update_first p f xs)"

text \<open>
  \<^verbatim>\<open>await db.collection('dunaRecords').updateOne({ id }, { $set: updatedRecord });\<close>
  The first document that matches gets the fields of \<open>updatedRecord\<close> (top-level field
  names).
\<close>

definition updateRecord :: "document list \<Rightarrow> jsstring \<Rightarrow> document \<Rightarrow> document list" where
  "updateRecord records ident updatedRecord =
     update_first (matches_id ident) (\<lambda>doc. foldl set_field doc updatedRecord) records"

section \<open>Sequences of operations on the record store\<close>

datatype operation =
    RunPipeline world jsstring
  | Update bool jsstring DunaRecordPartial

fun apply_operation :: "operation \<Rightarrow> store \<Rightarrow> store" where
  "apply_operation (RunPipeline w ident) db = fst (snd (generate_contract w db ident))"
| "apply_operation (Update rejects ident data) db =
     fst (snd (updateDunaRecord rejects db ident data))"

fun run :: "operation list \<Rightarrow> store \<Rightarrow> store" where
  "run [] db = db"
| "run (operation # rest) db = run rest (apply_operation operation db)"

text \<open>The responses of the pipeline runs of a sequence, in order.\<close>

fun pipeline_responses :: "operation list \<Rightarrow> store \<Rightarrow> http_response list" where
  "pipeline_responses [] db = []"
| "pipeline_responses (RunPipeline w ident # rest) db =
     snd (snd (generate_contract w db ident)) #
     pipeline_responses rest (apply_operation (RunPipeline w ident) db)"
| "pipeline_responses (Update rejects ident data # rest) db =
     pipeline_responses rest (apply_operation (Update rejects ident data) db)"

text \<open>An update that names none of the three pipeline-state fields; any pipeline run.\<close>

fun leaves_pipeline_state :: "operation \<Rightarrow> bool" where
  "leaves_pipeline_state (RunPipeline w ident) = True"
| "leaves_pipeline_state (Update rejects ident data) =
     (set_contractGenerated data = None \<and> set_contractSource data = None \<and>
      set_contractAddress data = None)"

text \<open>A successful response carries a non-empty address and a non-empty source.\<close>

fun nonempty_result :: "http_response \<Rightarrow> bool" where
  "nonempty_result (status, ContractBody msg address source) = (address \<noteq> [] \<and> source \<noteq> [])"
| "nonempty_result (status, ErrorBody msg) = True"

text \<open>The flag is set exactly when source and address are both non-empty.\<close>

definition flag_matches_fields :: "DunaRecord \<Rightarrow> bool" where
  "flag_matches_fields record \<longleftrightarrow>
     contractGenerated record = (contractSource record \<noteq> [] \<and> contractAddress record \<noteq> [])"

section \<open>Example inputs\<close>

definition alpha_co :: DunaRecord where
  "alpha_co =
     \<lparr>name = js ''Alpha Co'', membershipStatus = js ''active'', complianceLevel = 3,
      notes' = [], contractGenerated = False, contractSource = [], contractAddress = [],
      memberId = js ''m1''\<rparr>"

definition stub_completion :: jsval where
  "stub_completion =
     JObj [(js ''choices'', JArr [JObj [(js ''text'', JStr (js '' contract A {} ''))]])]"

definition stub_warning :: diagnostic where
  "stub_warning = \<lparr>severity = js ''warning'', message = js ''SPDX license identifier not provided''\<rparr>"

definition stub_error1 :: diagnostic where
  "stub_error1 = \<lparr>severity = js ''error'', message = js ''Expected pragma''\<rparr>"

definition stub_error2 :: diagnostic where
  "stub_error2 = \<lparr>severity = js ''error'', message = js ''Undeclared identifier''\<rparr>"

definition stub_contract :: contract_output where
  "stub_contract = \<lparr>abi = JArr [], evm_bytecode_object = js ''6080''\<rparr>"

definition stub_output :: compiler_output where
  "stub_output =
     \<lparr>errors = Some [stub_warning],
      contracts = Some [(js ''DUNAContract.sol'', [(js ''A'', stub_contract)])]\<rparr>"

definition failing_output :: compiler_output where
  "failing_output = \<lparr>errors = Some [stub_error1, stub_warning, stub_error2], contracts = None\<rparr>"

definition empty_output :: "jsstring \<Rightarrow> compiler_output" where
  "empty_output file = \<lparr>errors = None, contracts = Some [(file, [])]\<rparr>"

definition stub_world :: world where
  "stub_world =
     \<lparr>findById_rejects = False,
      llm_endpoint = (\<lambda>request. HttpResponse 200 stub_completion),
      solc = (\<lambda>source. stub_output),
      blockchain = (\<lambda>abi_json bytecode. Confirmed (js ''0x01'') (js ''0xDEADBEEF'')),
      save_rejects = False\<rparr>"

definition stub_store :: store where
  "stub_store = [js ''1'' \<mapsto> alpha_co]"

definition generated_record :: DunaRecord where
  "generated_record =
     alpha_co\<lparr>contractGenerated := True, contractSource := js ''}{ A tcartnoc'',
              contractAddress := js ''0xDEADBEEF''\<rparr>"

definition reset_flag :: DunaRecordPartial where
  "reset_flag =
     \<lparr>set_name = None, set_membershipStatus = None, set_complianceLevel = None,
      set_notes = None, set_contractGenerated = Some False, set_contractSource = None,
      set_contractAddress = None, set_memberId = None\<rparr>"

definition rename :: DunaRecordPartial where
  "rename =
     \<lparr>set_name = Some (js ''Beta''), set_membershipStatus = None, set_complianceLevel = None,
      set_notes = None, set_contractGenerated = None, set_contractSource = None,
      set_contractAddress = None, set_memberId = None\<rparr>"

definition renamed_record :: DunaRecord where
  "renamed_record = generated_record\<lparr>name := js ''Beta''\<rparr>"

definition alpha_document :: jsval where
  "alpha_document =
     JObj [(js ''id'', JStr (js ''1'')), (js ''name'', JStr (js ''Alpha Co'')),
           (js ''description'', JStr []), (js ''parameters'', JObj [])]"

definition stored_document :: document where
  "stored_document =
     [(js ''_id'', JStr (js ''65a0'')), (js ''id'', JStr (js ''1'')),
      (js ''name'', JStr (js ''Alpha Co'')), (js ''contractGenerated'', JBool True),
      (js ''contractSource'', JStr (js ''x'')), (js ''contractAddress'', JStr (js ''0x1'')),
      (js ''parameters'', JObj [(js ''quorum'', JNum 3)])]"

section \<open>Properties of the source transform\<close>

lemma join_split_rev: "join_empty (rev (split_empty code)) = rev code"
  by (induction code) (simp_all add: join_empty_def split_empty_def)

lemma obfuscateCode_rev: "obfuscateCode code = rev code"
  by (simp add: obfuscateCode_def join_split_rev)

lemma code_points_no_surrogate:
  "\<forall>u \<in> set code. \<not> is_surrogate u \<Longrightarrow> code_points code = map unat code"
  by (induction code rule: code_points.induct) (auto simp: is_surrogate_def)

lemma well_formed_no_surrogate:
  "\<forall>u \<in> set code. \<not> is_surrogate u \<Longrightarrow> well_formed code"
  by (induction code rule: well_formed.induct) (auto simp: is_surrogate_def)

lemma js_simps: "js [] = []" "js (c # cs) = word_of_nat (of_char c) # js cs"
  by (simp_all add: js_def)

lemma code_points_rev_no_surrogate:
  assumes "list_all (\<lambda>u. \<not> is_surrogate u) code"
  shows "code_points (rev code) = rev (code_points code)"
  using assms
  by (simp add: code_points_no_surrogate list_all_iff rev_map)

text \<open>
  C5. Applying \<open>obfuscateCode\<close> twice gives back the input, code unit for code unit, for
  every string: empty or not, with or without surrogate pairs.
\<close>

theorem obfuscateCode_twice: "obfuscateCode (obfuscateCode code) = code"
  by (simp add: obfuscateCode_rev)

text \<open>
  C6, as the code has it. One application keeps the length in code units and reverses
  the code units. On a text without surrogate code units (every character in the Basic
  Multilingual Plane) code units are code points: the code points come out reversed,
  their number is kept and the result is well formed.
\<close>

theorem obfuscateCode_code_units:
  "length (obfuscateCode code) = length code \<and>
   obfuscateCode code = rev code \<and>
   (list_all (\<lambda>u. \<not> is_surrogate u) code \<longrightarrow>
      code_points (obfuscateCode code) = rev (code_points code) \<and>
      length (code_points (obfuscateCode code)) = length (code_points code) \<and>
      well_formed (obfuscateCode code))"
  by (simp add: obfuscateCode_rev code_points_rev_no_surrogate)
     (simp add: well_formed_no_surrogate list_all_iff)

theorem obfuscateCode_code_units_witness:
  "list_all (\<lambda>u. \<not> is_surrogate u) [0x61, 0xE9, 0x4E2D] \<and>
   code_points (obfuscateCode [0x61, 0xE9, 0x4E2D]) = [0x4E2D, 0xE9, 0x61] \<and>
   well_formed (obfuscateCode [0x61, 0xE9, 0x4E2D])"
proof -
  have h: "list_all (\<lambda>u. \<not> is_surrogate u) [0x61, 0xE9, 0x4E2D :: 16 word]"
    by (simp add: is_surrogate_def is_high_surrogate_def is_low_surrogate_def)
  from obfuscateCode_code_units [of "[0x61, 0xE9, 0x4E2D]"] h
  show ?thesis
    by (simp add: is_surrogate_def is_high_surrogate_def is_low_surrogate_def)
qed

text \<open>
  C6 as stated fails on a supplementary-plane character. U+1F600 is the surrogate pair
  D83D DE00: one code point in a well-formed string. Reversed, the low surrogate comes
  first: two code points, both lone surrogates, and the string is no longer well formed.
\<close>

theorem obfuscateCode_surrogate_pair_counterexample:
  "well_formed [0xD83D, 0xDE00] \<and>
   code_points [0xD83D, 0xDE00] = [0x1F600] \<and>
   code_points (obfuscateCode [0xD83D, 0xDE00]) = [0xDE00, 0xD83D] \<and>
   \<not> well_formed (obfuscateCode [0xD83D, 0xDE00])"
  by (simp add: obfuscateCode_rev is_high_surrogate_def is_low_surrogate_def is_surrogate_def)

section \<open>Properties of the compiler adapter\<close>

text \<open>
  C3, as the code has it. \<open>compileContract\<close> keeps the diagnostics whose severity is
  \<open>error\<close>; when one remains it logs the whole filtered list and throws the fixed
  \<open>Contract compilation failed\<close>; diagnostics of any other severity change nothing. The
  adapter of the file \<open>services/contractService.ts\<close>, which compiles through the node,
  gives the same result whatever the diagnostics are.
\<close>

theorem compileContract_reports_error_diagnostics:
  "(errors (compiler source) = Some diagnostics \<and>
    filter (\<lambda>d. severity d = js ''error'') diagnostics \<noteq> [] \<longrightarrow>
      compileContract compiler source =
        ([SolcCompile source,
          Log (SolcCompilationErrors (filter (\<lambda>d. severity d = js ''error'') diagnostics))],
         Inl (Error (js ''Contract compilation failed'')))) \<and>
   (errors (compiler source) = Some diagnostics \<and>
    filter (\<lambda>d. severity d = js ''error'') diagnostics = [] \<longrightarrow>
      compileContract compiler source =
        compileContract (\<lambda>s. (compiler s)\<lparr>errors := None\<rparr>) source) \<and>
   compileAndDeployContract_rpc (\<lambda>s. Inr (output\<lparr>errors := reported\<rparr>)) chain source =
     compileAndDeployContract_rpc (\<lambda>s. Inr output) chain source"
  by (simp add: compileContract_def compileAndDeployContract_rpc_def first_contract_def
      and_then_def Let_def)

text \<open>Two errors and a warning: the failure is logged with exactly the two errors.\<close>

theorem compileContract_reports_error_diagnostics_witness:
  "errors failing_output = Some [stub_error1, stub_warning, stub_error2] \<and>
   filter (\<lambda>d. severity d = js ''error'') [stub_error1, stub_warning, stub_error2] =
     [stub_error1, stub_error2] \<and>
   compileContract (\<lambda>s. failing_output) (js ''x'') =
     ([SolcCompile (js ''x''), Log (SolcCompilationErrors [stub_error1, stub_error2])],
      Inl (Error (js ''Contract compilation failed'')))"
proof -
  have f: "filter (\<lambda>d. severity d = js ''error'') [stub_error1, stub_warning, stub_error2] =
     [stub_error1, stub_error2]"
    by (simp add: js_simps stub_error1_def stub_error2_def stub_warning_def)
  have e: "errors failing_output = Some [stub_error1, stub_warning, stub_error2]"
    by (simp add: failing_output_def)
  from compileContract_reports_error_diagnostics
    [of "\<lambda>s. failing_output" "js ''x''" "[stub_error1, stub_warning, stub_error2]"] e f
  show ?thesis by simp
qed

text \<open>
  C3 as stated fails on the adapter of \<open>services/contractService.ts\<close>. On an output with
  two errors, a warning and no contracts it throws the \<open>TypeError\<close> of the read of
  \<open>contracts['contract.sol']\<close>, and nothing carries the diagnostics; on an output with the
  same diagnostics and a contract it deploys.
\<close>

theorem compileAndDeployContract_rpc_counterexample:
  "compileAndDeployContract_rpc (\<lambda>s. Inr failing_output) (blockchain stub_world) (js ''x'') =
     ([EthCompileSolidity (js ''x'')], Inl (TypeError (js ''contract.sol''))) \<and>
   compileAndDeployContract_rpc
     (\<lambda>s. Inr \<lparr>errors = Some [stub_error1, stub_warning, stub_error2],
                contracts = Some [(js ''contract.sol'', [(js ''A'', stub_contract)])]\<rparr>)
     (blockchain stub_world) (js ''x'') =
     ([EthCompileSolidity (js ''x''), DeployTransaction (JArr []) (js ''6080'')],
      Inr (js ''0xDEADBEEF''))"
  by (simp add: js_simps compileAndDeployContract_rpc_def failing_output_def first_contract_def
      and_then_def stub_world_def stub_contract_def)

text \<open>
  C4 at its failing input: a compilation without error diagnostics whose file holds no
  contract. Neither adapter checks for it. The name of the first contract is
  \<open>undefined\<close>, so is the contract, and what the caller gets is the \<open>TypeError\<close> of the
  read of \<open>abi\<close>, not a compilation failure. When the output has no \<open>contracts\<close> at
  all, it is the \<open>TypeError\<close> of the read of the file's entry.
\<close>

theorem compileContract_no_contracts:
  "compileContract (\<lambda>s. empty_output (js ''DUNAContract.sol'')) (js ''pragma solidity ^0.8.0;'') =
     ([SolcCompile (js ''pragma solidity ^0.8.0;'')], Inl (TypeError (js ''abi''))) \<and>
   compileContract (\<lambda>s. \<lparr>errors = None, contracts = None\<rparr>) (js ''pragma solidity ^0.8.0;'') =
     ([SolcCompile (js ''pragma solidity ^0.8.0;'')],
      Inl (TypeError (js ''DUNAContract.sol''))) \<and>
   compileAndDeployContract_rpc (\<lambda>s. Inr (empty_output (js ''contract.sol'')))
     (blockchain stub_world) (js ''pragma solidity ^0.8.0;'') =
     ([EthCompileSolidity (js ''pragma solidity ^0.8.0;'')], Inl (TypeError (js ''abi'')))"
  by (simp add: js_simps compileContract_def compileAndDeployContract_rpc_def empty_output_def
      first_contract_def and_then_def)

section \<open>Properties of the prompt builder\<close>

lemma sublist_skip: "sublist xs zs \<Longrightarrow> sublist xs (ys @ zs)"
  by (metis append.assoc sublist_def)

lemma sublist_tail: "sublist (xs @ ys) zs \<Longrightarrow> sublist ys zs"
  by (metis append.assoc sublist_def)

lemma sublist_here: "sublist (xs @ ys) (xs @ ys @ zs)"
  by (metis append.assoc sublist_append_rightI)

lemma underscore_not_whitespace: "\<not> is_whitespace 0x5F"
  by (simp add: is_whitespace_def)

lemma replace_whitespace_runs_no_whitespace:
  "list_all (\<lambda>u. \<not> is_whitespace u) (replace_whitespace_runs s)"
  by (induction s rule: replace_whitespace_runs.induct)
     (simp_all add: underscore_not_whitespace)

lemma filter_dropWhile_whitespace:
  "filter (\<lambda>u. \<not> is_whitespace u) (dropWhile is_whitespace s) =
   filter (\<lambda>u. \<not> is_whitespace u) s"
  by (induction s) simp_all

lemma replace_whitespace_runs_keeps_others:
  "subseq (filter (\<lambda>u. \<not> is_whitespace u) s) (replace_whitespace_runs s)"
  by (induction s rule: replace_whitespace_runs.induct)
     (auto simp: filter_dropWhile_whitespace intro: list_emb_Cons)

lemma replace_alpha_co: "replace_whitespace_runs (js ''Alpha Co'') = js ''Alpha_Co''"
  by (simp add: js_simps is_whitespace_def)

lemma contract_prompt_contract_name:
  "sublist (js ''DUNA_'' @ replace_whitespace_runs (name record)) (contract_prompt record)"
  unfolding contract_prompt_def
  by (rule sublist_skip, rule sublist_skip, rule sublist_skip, rule sublist_skip,
      rule sublist_skip, rule sublist_skip, rule sublist_skip, rule sublist_skip,
      rule sublist_skip, rule sublist_skip, rule sublist_skip, rule sublist_skip,
      rule sublist_skip, rule sublist_skip, rule sublist_skip, rule sublist_skip,
      rule sublist_skip, rule sublist_skip, rule sublist_skip, rule sublist_skip,
      rule sublist_skip, rule sublist_here)

text \<open>
  C9, as the code has it. The prompt of \<open>generateContractSource\<close> contains the record's
  name, its membership status and its compliance level, and asks for the contract name
  \<open>DUNA_\<close> followed by the name in which every run of white space is one underscore:
  that derived name has no white space and keeps every other code unit of the name in
  order. For the name \<open>Alpha Co\<close> the prompt contains \<open>Alpha_Co\<close>.
\<close>

theorem contract_prompt_embeds_record:
  "sublist (name record) (contract_prompt record) \<and>
   sublist (membershipStatus record) (contract_prompt record) \<and>
   sublist (number_toString (complianceLevel record)) (contract_prompt record) \<and>
   sublist (js ''DUNA_'' @ replace_whitespace_runs (name record)) (contract_prompt record) \<and>
   list_all (\<lambda>u. \<not> is_whitespace u) (replace_whitespace_runs (name record)) \<and>
   subseq (filter (\<lambda>u. \<not> is_whitespace u) (name record))
     (replace_whitespace_runs (name record)) \<and>
   (name record = js ''Alpha Co'' \<longrightarrow> sublist (js ''Alpha_Co'') (contract_prompt record))"
proof (intro conjI impI)
  show "sublist (name record) (contract_prompt record)"
    unfolding contract_prompt_def
    by (rule sublist_skip, rule sublist_skip, rule sublist_skip, rule sublist_skip,
        rule sublist_skip, rule sublist_append_rightI)
  show "sublist (membershipStatus record) (contract_prompt record)"
    unfolding contract_prompt_def
    by (rule sublist_skip, rule sublist_skip, rule sublist_skip, rule sublist_skip,
        rule sublist_skip, rule sublist_skip, rule sublist_skip, rule sublist_skip,
        rule sublist_append_rightI)
  show "sublist (number_toString (complianceLevel record)) (contract_prompt record)"
    unfolding contract_prompt_def
    by (rule sublist_skip, rule sublist_skip, rule sublist_skip, rule sublist_skip,
        rule sublist_skip, rule sublist_skip, rule sublist_skip, rule sublist_skip,
        rule sublist_skip, rule sublist_skip, rule sublist_skip,
        rule sublist_append_rightI)
  show "sublist (js ''DUNA_'' @ replace_whitespace_runs (name record)) (contract_prompt record)"
    by (rule contract_prompt_contract_name)
  show "list_all (\<lambda>u. \<not> is_whitespace u) (replace_whitespace_runs (name record))"
    by (rule replace_whitespace_runs_no_whitespace)
  show "subseq (filter (\<lambda>u. \<not> is_whitespace u) (name record))
     (replace_whitespace_runs (name record))"
    by (rule replace_whitespace_runs_keeps_others)
  assume "name record = js ''Alpha Co''"
  with contract_prompt_contract_name [of "record"]
  have "sublist (js ''DUNA_'' @ js ''Alpha_Co'') (contract_prompt record)"
    by (simp add: replace_alpha_co)
  then show "sublist (js ''Alpha_Co'') (contract_prompt record)"
    by (rule sublist_tail)
qed

theorem contract_prompt_embeds_record_witness:
  "name alpha_co = js ''Alpha Co'' \<and>
   replace_whitespace_runs (name alpha_co) = js ''Alpha_Co'' \<and>
   sublist (js ''Alpha_Co'') (contract_prompt alpha_co)"
proof -
  have n: "name alpha_co = js ''Alpha Co''"
    by (simp add: alpha_co_def)
  from contract_prompt_embeds_record [of alpha_co] n
  show ?thesis
    by (simp add: replace_alpha_co)
qed

text \<open>
  C9 as stated fails on \<open>generateSolidityCode\<close>, the client of the file
  \<open>services/llmService.ts\<close>: its prompt is a fixed sentence followed by
  \<open>JSON.stringify(record)\<close>. For the record named \<open>Alpha Co\<close> the prompt contains the name
  as it is and nowhere \<open>Alpha_Co\<close>; no contract name is asked for.
\<close>

theorem solidity_prompt_counterexample:
  "get_property alpha_document (js ''name'') = Inr (JStr (js ''Alpha Co'')) \<and>
   solidity_prompt alpha_document =
     js ''Generate a Solidity smart contract for the following record: {'' @ dquote @
     js ''id'' @ dquote @ js '':'' @ dquote @ js ''1'' @ dquote @ js '','' @ dquote @
     js ''name'' @ dquote @ js '':'' @ dquote @ js ''Alpha Co'' @ dquote @ js '','' @ dquote @
     js ''description'' @ dquote @ js '':'' @ dquote @ dquote @ js '','' @ dquote @
     js ''parameters'' @ dquote @ js '':{}}'' \<and>
   sublist (js ''Alpha Co'') (solidity_prompt alpha_document) \<and>
   \<not> sublist (js ''Alpha_Co'') (solidity_prompt alpha_document)"
  by code_simp

section \<open>Properties of the generation client\<close>

lemma generateContractSource_result:
  "snd (generateContractSource endpoint record) =
     (case endpoint \<lparr>req_prompt = contract_prompt record, req_max_tokens = 1500\<rparr> of
        NetworkFailure \<Rightarrow> Inl (Error (js ''Failed to generate contract source''))
      | HttpResponse status data \<Rightarrow>
          if 200 \<le> status \<and> status < 300
          then (case completion_text data of
                  Inl error \<Rightarrow> Inl (Error (js ''Failed to generate contract source''))
                | Inr v \<Rightarrow>
                    (case v of
                       JStr text \<Rightarrow> Inr (obfuscateCode (trim text))
                     | _ \<Rightarrow> Inl (Error (js ''Failed to generate contract source''))))
          else Inl (Error (js ''Failed to generate contract source'')))"
proof (cases "endpoint \<lparr>req_prompt = contract_prompt record, req_max_tokens = 1500\<rparr>")
  case NetworkFailure
  then show ?thesis
    by (simp add: generateContractSource_def Let_def axios_post_def and_then_def)
next
  case (HttpResponse status data)
  show ?thesis
  proof (cases "completion_text data")
    case (Inl error)
    with HttpResponse show ?thesis
      by (simp add: generateContractSource_def Let_def axios_post_def and_then_def)
  next
    case (Inr v)
    with HttpResponse show ?thesis
      by (cases v) (simp_all add: generateContractSource_def Let_def axios_post_def and_then_def)
  qed
qed

text \<open>
  C8, as the code has it. In \<open>generateContractSource\<close> a network failure, a status
  outside 200..299 and a body in which \<open>choices[0].text\<close> is not a string (missing
  included) all reach the caller as the one \<open>Error('Failed to generate contract source')\<close>;
  no other error leaves the function; and a successful result is always the reversed,
  trimmed \<open>text\<close> of a 2xx response.
\<close>

theorem generateContractSource_single_failure:
  "(endpoint \<lparr>req_prompt = contract_prompt record, req_max_tokens = 1500\<rparr> = NetworkFailure \<longrightarrow>
      snd (generateContractSource endpoint record) =
        Inl (Error (js ''Failed to generate contract source''))) \<and>
   (endpoint \<lparr>req_prompt = contract_prompt record, req_max_tokens = 1500\<rparr> =
      HttpResponse status data \<and> \<not> (200 \<le> status \<and> status < 300) \<longrightarrow>
      snd (generateContractSource endpoint record) =
        Inl (Error (js ''Failed to generate contract source''))) \<and>
   (endpoint \<lparr>req_prompt = contract_prompt record, req_max_tokens = 1500\<rparr> =
      HttpResponse status data \<and> (\<forall>text. completion_text data \<noteq> Inr (JStr text)) \<longrightarrow>
      snd (generateContractSource endpoint record) =
        Inl (Error (js ''Failed to generate contract source''))) \<and>
   (snd (generateContractSource endpoint record) = Inr source \<longrightarrow>
      (\<exists>status data text.
         endpoint \<lparr>req_prompt = contract_prompt record, req_max_tokens = 1500\<rparr> =
           HttpResponse status data \<and>
         200 \<le> status \<and> status < 300 \<and>
         completion_text data = Inr (JStr text) \<and>
         source = obfuscateCode (trim text))) \<and>
   (snd (generateContractSource endpoint record) = Inl error \<longrightarrow>
      error = Error (js ''Failed to generate contract source''))"
proof (intro conjI impI)
  assume "endpoint \<lparr>req_prompt = contract_prompt record, req_max_tokens = 1500\<rparr> = NetworkFailure"
  then show "snd (generateContractSource endpoint record) =
        Inl (Error (js ''Failed to generate contract source''))"
    by (simp add: generateContractSource_result)
next
  assume "endpoint \<lparr>req_prompt = contract_prompt record, req_max_tokens = 1500\<rparr> =
      HttpResponse status data \<and> \<not> (200 \<le> status \<and> status < 300)"
  then show "snd (generateContractSource endpoint record) =
        Inl (Error (js ''Failed to generate contract source''))"
    by (auto simp: generateContractSource_result)
next
  assume a: "endpoint \<lparr>req_prompt = contract_prompt record, req_max_tokens = 1500\<rparr> =
      HttpResponse status data \<and> (\<forall>text. completion_text data \<noteq> Inr (JStr text))"
  show "snd (generateContractSource endpoint record) =
        Inl (Error (js ''Failed to generate contract source''))"
  proof (cases "completion_text data")
    case (Inl e)
    with a show ?thesis by (simp add: generateContractSource_result)
  next
    case (Inr v)
    with a show ?thesis by (cases v) (simp_all add: generateContractSource_result)
  qed
next
  assume s: "snd (generateContractSource endpoint record) = Inr source"
  show "\<exists>status data text.
         endpoint \<lparr>req_prompt = contract_prompt record, req_max_tokens = 1500\<rparr> =
           HttpResponse status data \<and>
         200 \<le> status \<and> status < 300 \<and>
         completion_text data = Inr (JStr text) \<and>
         source = obfuscateCode (trim text)"
  proof (cases "endpoint \<lparr>req_prompt = contract_prompt record, req_max_tokens = 1500\<rparr>")
    case NetworkFailure
    with s show ?thesis by (simp add: generateContractSource_result)
  next
    case (HttpResponse st d)
    show ?thesis
    proof (cases "completion_text d")
      case (Inl e)
      with s HttpResponse show ?thesis
        by (simp add: generateContractSource_result split: if_splits)
    next
      case (Inr v)
      with s HttpResponse show ?thesis
        by (cases v) (simp_all add: generateContractSource_result split: if_splits)
    qed
  qed
next
  assume f: "snd (generateContractSource endpoint record) = Inl error"
  show "error = Error (js ''Failed to generate contract source'')"
  proof (cases "endpoint \<lparr>req_prompt = contract_prompt record, req_max_tokens = 1500\<rparr>")
    case NetworkFailure
    with f show ?thesis by (simp add: generateContractSource_result)
  next
    case (HttpResponse st d)
    show ?thesis
    proof (cases "completion_text d")
      case (Inl e)
      with f HttpResponse show ?thesis
        by (simp add: generateContractSource_result split: if_splits)
    next
      case (Inr v)
      with f HttpResponse show ?thesis
        by (cases v) (simp_all add: generateContractSource_result split: if_splits)
    qed
  qed
qed

lemma completion_text_missing_text:
  "completion_text (JObj [(js ''choices'', JArr [JObj []])]) = Inr JUndefined"
  by (simp add: completion_text_def and_then_def)

text \<open>A 200 response whose first choice has no \<open>text\<close>.\<close>

theorem generateContractSource_single_failure_witness:
  "completion_text (JObj [(js ''choices'', JArr [JObj []])]) = Inr JUndefined \<and>
   snd (generateContractSource
          (\<lambda>request. HttpResponse 200 (JObj [(js ''choices'', JArr [JObj []])])) alpha_co) =
     Inl (Error (js ''Failed to generate contract source''))"
proof -
  let ?data = "JObj [(js ''choices'', JArr [JObj []])]"
  have h: "(\<lambda>request. HttpResponse 200 ?data)
             \<lparr>req_prompt = contract_prompt alpha_co, req_max_tokens = 1500\<rparr> =
           HttpResponse 200 ?data \<and>
           (\<forall>text. completion_text ?data \<noteq> Inr (JStr text))"
    by (simp add: completion_text_missing_text)
  have "snd (generateContractSource (\<lambda>request. HttpResponse 200 ?data) alpha_co) =
          Inl (Error (js ''Failed to generate contract source''))"
    using generateContractSource_single_failure
      [of "\<lambda>request. HttpResponse 200 ?data" alpha_co 200 ?data] h
    by blast
  then show ?thesis
    by (simp add: completion_text_missing_text)
qed

text \<open>
  C8 as stated fails on \<open>generateSolidityCode\<close>, the client of the file
  \<open>services/llmService.ts\<close>, which has no handler. A 200 response whose first choice
  has no \<open>text\<close> gives \<open>undefined\<close> as a successful result; a network failure reaches
  the caller as the library's own error, a body without \<open>choices\<close> as a \<open>TypeError\<close>.
\<close>

theorem generateSolidityCode_counterexample:
  "snd (generateSolidityCode
          (\<lambda>request. HttpResponse 200 (JObj [(js ''choices'', JArr [JObj []])])) alpha_document) =
     Inr JUndefined \<and>
   snd (generateSolidityCode (\<lambda>request. NetworkFailure) alpha_document) = Inl AxiosError \<and>
   snd (generateSolidityCode (\<lambda>request. HttpResponse 200 (JObj [])) alpha_document) =
     Inl (TypeError (js ''0''))"
  by (simp add: generateSolidityCode_def Let_def axios_post_def and_then_def completion_text_def)

section \<open>Properties of the generate-contract handler\<close>

lemma stub_run:
  "generate_contract stub_world stub_store (js ''1'') =
     ([FindById (js ''1''),
       AxiosPost \<lparr>req_prompt = contract_prompt alpha_co, req_max_tokens = 1500\<rparr>,
       SolcCompile (js ''}{ A tcartnoc''),
       DeployTransaction (JArr []) (js ''6080''),
       Log (DeployingContract (js ''0x01'')),
       Log (ContractDeployedAt (js ''0xDEADBEEF'')),
       Save (js ''1'') generated_record],
      stub_store(js ''1'' \<mapsto> generated_record),
      (200, ContractBody (js ''Smart contract generated and deployed successfully'')
              (js ''0xDEADBEEF'') (js ''}{ A tcartnoc'')))"
  by (simp add: js_simps generate_contract_def stub_world_def stub_store_def alpha_co_def
      generateContractSource_def axios_post_def and_then_def completion_text_def
      stub_completion_def trim_def is_whitespace_def obfuscateCode_rev
      compileAndDeployContract_def compileContract_def stub_output_def stub_warning_def
      first_contract_def stub_contract_def deployContract_def generated_record_def Let_def)

text \<open>
  C1. On a stored record whose \<open>contractGenerated\<close> is false, one request either leaves
  the store as it was and answers 500 with the error body, or stores the record with
  \<open>contractGenerated\<close>, \<open>contractSource\<close> and \<open>contractAddress\<close> assigned together
  (every other field and every other record as before) and answers 200 with that address
  and source. No outcome assigns one or two of the three fields. This holds for every
  behaviour of the completion endpoint, the compiler, the chain and the database.
\<close>

theorem generate_contract_all_or_nothing:
  assumes "db ident = Some record" and "\<not> contractGenerated record"
  shows "(fst (snd (generate_contract w db ident)) = db \<and>
          snd (snd (generate_contract w db ident)) = failed_response) \<or>
         (\<exists>source address.
            fst (snd (generate_contract w db ident)) =
              db(ident \<mapsto> record\<lparr>contractGenerated := True, contractSource := source,
                                    contractAddress := address\<rparr>) \<and>
            snd (snd (generate_contract w db ident)) =
              (200, ContractBody (js ''Smart contract generated and deployed successfully'')
                      address source))"
  using assms
  by (auto simp: generate_contract_def Let_def split: prod.splits sum.splits)

theorem generate_contract_all_or_nothing_witness:
  "stub_store (js ''1'') = Some alpha_co \<and> \<not> contractGenerated alpha_co \<and>
   fst (snd (generate_contract stub_world stub_store (js ''1''))) (js ''1'') =
     Some generated_record \<and>
   snd (snd (generate_contract stub_world stub_store (js ''1''))) =
     (200, ContractBody (js ''Smart contract generated and deployed successfully'')
             (js ''0xDEADBEEF'') (js ''}{ A tcartnoc''))"
proof -
  have h1: "stub_store (js ''1'') = Some alpha_co"
    by (simp add: stub_store_def)
  have h2: "\<not> contractGenerated alpha_co"
    by (simp add: alpha_co_def)
  from generate_contract_all_or_nothing
    [of stub_store "js ''1''" alpha_co stub_world, OF h1 h2] h1 h2
  show ?thesis
    by (simp add: stub_run)
qed

text \<open>
  C2. When the lookup returns a record whose \<open>contractGenerated\<close> is true, the request
  answers 400 with \<open>Contract already generated\<close>; the lookup is its only effect (no
  completion request, no compilation, no deployment, no save, no log line) and the store
  is as before.
\<close>

theorem generate_contract_already_generated:
  assumes "\<not> findById_rejects w" and "db ident = Some record" and "contractGenerated record"
  shows "generate_contract w db ident =
           ([FindById ident], db, (400, ErrorBody (js ''Contract already generated'')))"
  using assms by (simp add: generate_contract_def)

theorem generate_contract_already_generated_witness:
  "\<not> findById_rejects stub_world \<and>
   (stub_store(js ''1'' \<mapsto> generated_record)) (js ''1'') = Some generated_record \<and>
   contractGenerated generated_record \<and>
   generate_contract stub_world (stub_store(js ''1'' \<mapsto> generated_record)) (js ''1'') =
     ([FindById (js ''1'')], stub_store(js ''1'' \<mapsto> generated_record),
      (400, ErrorBody (js ''Contract already generated'')))"
  using generate_contract_already_generated
    [of stub_world "stub_store(js ''1'' \<mapsto> generated_record)" "js ''1''" generated_record]
  by (simp add: stub_world_def generated_record_def)

section \<open>Properties of the record store\<close>




lemma generate_contract_store:
  "fst (snd (generate_contract w db i)) = db \<or>
   (\<exists>stored source address msg.
      db i = Some stored \<and> \<not> contractGenerated stored \<and>
      fst (snd (generate_contract w db i)) =
        db(i \<mapsto> stored\<lparr>contractGenerated := True, contractSource := source,
                          contractAddress := address\<rparr>) \<and>
      snd (snd (generate_contract w db i)) = (200, ContractBody msg address source))"
  by (auto simp: generate_contract_def Let_def split: prod.splits sum.splits option.splits)

lemma assign_fields_pipeline_state:
  assumes "set_contractGenerated data = None" "set_contractSource data = None"
    "set_contractAddress data = None"
  shows "contractGenerated (assign_fields data r) = contractGenerated r"
    "contractSource (assign_fields data r) = contractSource r"
    "contractAddress (assign_fields data r) = contractAddress r"
  using assms by (simp_all add: assign_fields_def)

lemma apply_operation_step:
  assumes "leaves_pipeline_state operation" and "db ident = Some r"
  shows "\<exists>r'. apply_operation operation db ident = Some r' \<and>
           (contractGenerated r \<longrightarrow>
              contractGenerated r' \<and> contractSource r' = contractSource r \<and>
              contractAddress r' = contractAddress r) \<and>
           (flag_matches_fields r \<and> list_all nonempty_result (pipeline_responses [operation] db)
              \<longrightarrow> flag_matches_fields r')"
proof (cases operation)
  case (RunPipeline w i)
  from generate_contract_store [of w db i]
  show ?thesis
  proof
    assume "fst (snd (generate_contract w db i)) = db"
    with RunPipeline assms show ?thesis by simp
  next
    assume "\<exists>stored source address msg.
      db i = Some stored \<and> \<not> contractGenerated stored \<and>
      fst (snd (generate_contract w db i)) =
        db(i \<mapsto> stored\<lparr>contractGenerated := True, contractSource := source,
                          contractAddress := address\<rparr>) \<and>
      snd (snd (generate_contract w db i)) = (200, ContractBody msg address source)"
    then obtain stored source address msg where
      a: "db i = Some stored" "\<not> contractGenerated stored"
      "fst (snd (generate_contract w db i)) =
        db(i \<mapsto> stored\<lparr>contractGenerated := True, contractSource := source,
                          contractAddress := address\<rparr>)"
      "snd (snd (generate_contract w db i)) = (200, ContractBody msg address source)"
      by blast
    show ?thesis
    proof (cases "i = ident")
      case True
      with a assms RunPipeline show ?thesis
        by (simp add: flag_matches_fields_def)
    next
      case False
      with a assms RunPipeline show ?thesis by simp
    qed
  qed
next
  case (Update rejects i data)
  with assms show ?thesis
    by (auto simp: updateDunaRecord_def flag_matches_fields_def assign_fields_pipeline_state
        split: option.splits)
qed

lemma pipeline_responses_Cons:
  "list_all nonempty_result (pipeline_responses (operation # rest) db) \<longleftrightarrow>
   list_all nonempty_result (pipeline_responses [operation] db) \<and>
   list_all nonempty_result (pipeline_responses rest (apply_operation operation db))"
  by (cases operation) simp_all

text \<open>
  C7, as the code has it. Take any sequence of pipeline runs and of updates that name
  none of \<open>contractGenerated\<close>, \<open>contractSource\<close>, \<open>contractAddress\<close>. A stored record stays
  stored; once its \<open>contractGenerated\<close> is true it stays true, with the same source and
  address; and if the flag matched the two fields at the start (true exactly when both
  are non-empty) and every successful run returned a non-empty address and source, it
  matches them at the end.
\<close>

theorem pipeline_state_kept:
  assumes "list_all leaves_pipeline_state operations" and "db ident = Some r"
  shows "\<exists>r'. run operations db ident = Some r' \<and>
           (contractGenerated r \<longrightarrow>
              contractGenerated r' \<and> contractSource r' = contractSource r \<and>
              contractAddress r' = contractAddress r) \<and>
           (flag_matches_fields r \<and> list_all nonempty_result (pipeline_responses operations db)
              \<longrightarrow> flag_matches_fields r')"
  using assms
proof (induction operations arbitrary: db r)
  case Nil
  then show ?case by simp
next
  case (Cons operation rest)
  from Cons.prems have l: "leaves_pipeline_state operation" "list_all leaves_pipeline_state rest"
    by simp_all
  from apply_operation_step [of operation db ident r, OF l(1) Cons.prems(2)]
  obtain r1 where s: "apply_operation operation db ident = Some r1"
    "contractGenerated r \<longrightarrow>
       contractGenerated r1 \<and> contractSource r1 = contractSource r \<and>
       contractAddress r1 = contractAddress r"
    "flag_matches_fields r \<and> list_all nonempty_result (pipeline_responses [operation] db)
       \<longrightarrow> flag_matches_fields r1"
    by blast
  from Cons.IH [of "apply_operation operation db" r1, OF l(2) s(1)]
  obtain r2 where t: "run rest (apply_operation operation db) ident = Some r2"
    "contractGenerated r1 \<longrightarrow>
       contractGenerated r2 \<and> contractSource r2 = contractSource r1 \<and>
       contractAddress r2 = contractAddress r1"
    "flag_matches_fields r1 \<and>
       list_all nonempty_result (pipeline_responses rest (apply_operation operation db))
       \<longrightarrow> flag_matches_fields r2"
    by blast
  have "run (operation # rest) db ident = Some r2"
    using t(1) by simp
  moreover have "contractGenerated r \<longrightarrow>
       contractGenerated r2 \<and> contractSource r2 = contractSource r \<and>
       contractAddress r2 = contractAddress r"
    using s(2) t(2) by simp
  moreover have "flag_matches_fields r \<and>
       list_all nonempty_result (pipeline_responses (operation # rest) db)
       \<longrightarrow> flag_matches_fields r2"
    using s(3) t(3) pipeline_responses_Cons [of operation rest db] by blast
  ultimately show ?case by blast
qed

lemma update_steps:
  "updateDunaRecord False (stub_store(js ''1'' \<mapsto> generated_record)) (js ''1'') rename =
     ([FindByIdAndUpdate (js ''1''), Log (UpdatedDunaRecord (js ''1''))],
      stub_store(js ''1'' \<mapsto> renamed_record), Inr (Some renamed_record))"
  "updateDunaRecord False (stub_store(js ''1'' \<mapsto> generated_record)) (js ''1'') reset_flag =
     ([FindByIdAndUpdate (js ''1''), Log (UpdatedDunaRecord (js ''1''))],
      stub_store(js ''1'' \<mapsto> generated_record\<lparr>contractGenerated := False\<rparr>),
      Inr (Some (generated_record\<lparr>contractGenerated := False\<rparr>)))"
  by (simp_all add: updateDunaRecord_def assign_fields_def rename_def reset_flag_def
      renamed_record_def generated_record_def alpha_co_def)

lemma second_run_step:
  "generate_contract stub_world (stub_store(js ''1'' \<mapsto> renamed_record)) (js ''1'') =
     ([FindById (js ''1'')], stub_store(js ''1'' \<mapsto> renamed_record),
      (400, ErrorBody (js ''Contract already generated'')))"
  by (simp add: generate_contract_def stub_world_def renamed_record_def generated_record_def)

lemmas renamed_steps = stub_run update_steps second_run_step

lemma stub_strings_nonempty: "js ''0xDEADBEEF'' \<noteq> []" "js ''}{ A tcartnoc'' \<noteq> []"
  by (simp_all add: js_simps)

theorem pipeline_state_kept_witness:
  "list_all leaves_pipeline_state
     [RunPipeline stub_world (js ''1''), Update False (js ''1'') rename,
      RunPipeline stub_world (js ''1'')] \<and>
   stub_store (js ''1'') = Some alpha_co \<and>
   flag_matches_fields alpha_co \<and>
   list_all nonempty_result
     (pipeline_responses
        [RunPipeline stub_world (js ''1''), Update False (js ''1'') rename,
         RunPipeline stub_world (js ''1'')] stub_store) \<and>
   run [RunPipeline stub_world (js ''1''), Update False (js ''1'') rename,
        RunPipeline stub_world (js ''1'')] stub_store (js ''1'') = Some renamed_record \<and>
   contractGenerated renamed_record \<and>
   flag_matches_fields renamed_record"
proof -
  let ?ops = "[RunPipeline stub_world (js ''1''), Update False (js ''1'') rename,
               RunPipeline stub_world (js ''1'')]"
  have l: "list_all leaves_pipeline_state ?ops"
    by (simp add: rename_def)
  have s: "stub_store (js ''1'') = Some alpha_co"
    by (simp add: stub_store_def)
  have m: "flag_matches_fields alpha_co"
    by (simp add: flag_matches_fields_def alpha_co_def)
  have n: "list_all nonempty_result (pipeline_responses ?ops stub_store)"
    by (simp add: renamed_steps stub_strings_nonempty)
  have r: "run ?ops stub_store (js ''1'') = Some renamed_record"
    by (simp add: renamed_steps)
  from pipeline_state_kept [of ?ops stub_store "js ''1''" alpha_co, OF l s] m n r
  have "contractGenerated renamed_record = contractGenerated renamed_record \<and>
        flag_matches_fields renamed_record"
    by simp
  moreover have "contractGenerated renamed_record"
    by (simp add: renamed_record_def generated_record_def)
  ultimately show ?thesis
    using l s m n r by simp
qed

text \<open>
  C7 as stated fails on an update that names a pipeline-state field: \<open>updateDunaRecord\<close>
  and \<open>updateRecord\<close> write whatever fields they are given. After a successful run the
  flag is true; the update \<open>{contractGenerated: false}\<close> sets it back to false, with the
  source and the address still non-empty.
\<close>

theorem update_resets_flag_counterexample:
  "run [RunPipeline stub_world (js ''1'')] stub_store (js ''1'') = Some generated_record \<and>
   contractGenerated generated_record \<and>
   run [RunPipeline stub_world (js ''1''), Update False (js ''1'') reset_flag] stub_store
     (js ''1'') = Some (generated_record\<lparr>contractGenerated := False\<rparr>) \<and>
   contractSource generated_record = js ''}{ A tcartnoc'' \<and>
   contractAddress generated_record = js ''0xDEADBEEF'' \<and>
   get_field stored_document (js ''contractGenerated'') = JBool True \<and>
   map (\<lambda>doc. get_field doc (js ''contractGenerated''))
     (updateRecord [stored_document] (js ''1'') [(js ''contractGenerated'', JBool False)]) =
     [JBool False] \<and>
   map (\<lambda>doc. get_field doc (js ''contractSource''))
     (updateRecord [stored_document] (js ''1'') [(js ''contractGenerated'', JBool False)]) =
     [JStr (js ''x'')]"
proof -
  have a: "run [RunPipeline stub_world (js ''1'')] stub_store (js ''1'') = Some generated_record"
    "run [RunPipeline stub_world (js ''1''), Update False (js ''1'') reset_flag] stub_store
       (js ''1'') = Some (generated_record\<lparr>contractGenerated := False\<rparr>)"
    by (simp_all add: renamed_steps)
  have b: "contractGenerated generated_record"
    "contractSource generated_record = js ''}{ A tcartnoc''"
    "contractAddress generated_record = js ''0xDEADBEEF''"
    by (simp_all add: generated_record_def)
  have c: "get_field stored_document (js ''contractGenerated'') = JBool True"
    "map (\<lambda>doc. get_field doc (js ''contractGenerated''))
       (updateRecord [stored_document] (js ''1'') [(js ''contractGenerated'', JBool False)]) =
       [JBool False]"
    "map (\<lambda>doc. get_field doc (js ''contractSource''))
       (updateRecord [stored_document] (js ''1'') [(js ''contractGenerated'', JBool False)]) =
       [JStr (js ''x'')]"
    by code_simp+
  from a b c show ?thesis by simp
qed

end
